theory Spec2Isabelle
  imports Complex_Main
begin

section \<open>Python values, exceptions and the operators the scorer applies to them\<close>

text \<open>
  The scoring service (\<^verbatim>\<open>ai-scorer/app/api.py\<close>) works on whatever
  \<^verbatim>\<open>request.get_json()\<close> hands it: a parsed JSON document, that is a Python
  \<^verbatim>\<open>None\<close>, \<^verbatim>\<open>bool\<close>, \<^verbatim>\<open>int\<close>, \<^verbatim>\<open>float\<close>,
  \<^verbatim>\<open>str\<close>, \<^verbatim>\<open>list\<close> or \<^verbatim>\<open>dict\<close>. A dict is kept as an association
  list read with \<open>map_of\<close>.

  A Python float is represented by the real number it denotes and float arithmetic by real
  arithmetic: rounding, infinities and NaN are outside this model.
\<close>

datatype pyval =
    PNone
  | PBool bool
  | PInt int
  | PFloat real
  | PStr string
  | PList "pyval list"
  | PDict "(string \<times> pyval) list"

text \<open>Every exception raised below is a subclass of \<^verbatim>\<open>Exception\<close>; each carries its message.\<close>

datatype exn =
    TypeError string
  | AttributeError string
  | ValueError string
  | IndexError string
  | OSError string
  | UnpicklingError string
  | HTTPException string

fun str_exn :: "exn \<Rightarrow> string" where
  "str_exn (TypeError m) = m"
| "str_exn (AttributeError m) = m"
| "str_exn (ValueError m) = m"
| "str_exn (IndexError m) = m"
| "str_exn (OSError m) = m"
| "str_exn (UnpicklingError m) = m"
| "str_exn (HTTPException m) = m"

text \<open>Sequencing of calls that may raise: the first exception ends the computation.\<close>

definition and_then :: "exn + 'a \<Rightarrow> ('a \<Rightarrow> exn + 'b) \<Rightarrow> exn + 'b" where
  "and_then m f = (case m of Inl e \<Rightarrow> Inl e | Inr x \<Rightarrow> f x)"

fun type_name :: "pyval \<Rightarrow> string" where
  "type_name PNone = ''NoneType''"
| "type_name (PBool _) = ''bool''"
| "type_name (PInt _) = ''int''"
| "type_name (PFloat _) = ''float''"
| "type_name (PStr _) = ''str''"
| "type_name (PList _) = ''list''"
| "type_name (PDict _) = ''dict''"

text \<open>Truth value of an object, as \<^verbatim>\<open>not data\<close> tests it.\<close>

fun truthy :: "pyval \<Rightarrow> bool" where
  "truthy PNone = False"
| "truthy (PBool b) = b"
| "truthy (PInt i) = (i \<noteq> 0)"
| "truthy (PFloat r) = (r \<noteq> 0)"
| "truthy (PStr s) = (s \<noteq> [])"
| "truthy (PList xs) = (xs \<noteq> [])"
| "truthy (PDict kvs) = (kvs \<noteq> [])"

text \<open>The number a \<^verbatim>\<open>bool\<close>, \<^verbatim>\<open>int\<close> or \<^verbatim>\<open>float\<close> stands for in arithmetic and comparisons.\<close>

fun num_of :: "pyval \<Rightarrow> real option" where
  "num_of (PBool b) = Some (if b then 1 else 0)"
| "num_of (PInt i) = Some (of_int i)"
| "num_of (PFloat r) = Some r"
| "num_of _ = None"

definition quoted :: "string \<Rightarrow> string" where
  "quoted s = CHR 0x27 # s @ [CHR 0x27]"

text \<open>\<^verbatim>\<open>data.get\<close>: only a dict has the method.\<close>

definition attr_get :: "pyval \<Rightarrow> exn + (string \<times> pyval) list" where
  "attr_get v = (case v of
       PDict kvs \<Rightarrow> Inr kvs
     | _ \<Rightarrow> Inl (AttributeError (quoted (type_name v) @ '' object has no attribute '' @ quoted ''get'')))"

text \<open>\<^verbatim>\<open>d.get(key, default)\<close>.\<close>

definition dict_get :: "(string \<times> pyval) list \<Rightarrow> string \<Rightarrow> pyval \<Rightarrow> pyval" where
  "dict_get d k dflt = (case map_of d k of Some v \<Rightarrow> v | None \<Rightarrow> dflt)"

text \<open>
  \<^verbatim>\<open>v * n\<close> for an int literal \<open>n\<close>: arithmetic on numbers, repetition on
  sequences, \<^verbatim>\<open>TypeError\<close> otherwise.
\<close>

definition unsupported_mul :: "pyval \<Rightarrow> string \<Rightarrow> exn" where
  "unsupported_mul v t =
     TypeError (''unsupported operand type(s) for *: '' @ quoted (type_name v) @ '' and '' @ quoted t)"

fun py_mul_int :: "pyval \<Rightarrow> int \<Rightarrow> exn + pyval" where
  "py_mul_int (PBool b) n = Inr (PInt ((if b then 1 else 0) * n))"
| "py_mul_int (PInt i) n = Inr (PInt (i * n))"
| "py_mul_int (PFloat r) n = Inr (PFloat (r * of_int n))"
| "py_mul_int (PStr s) n = Inr (PStr (concat (replicate (nat n) s)))"
| "py_mul_int (PList xs) n = Inr (PList (concat (replicate (nat n) xs)))"
| "py_mul_int v n = Inl (unsupported_mul v ''int'')"

text \<open>\<^verbatim>\<open>v * x\<close> for a float literal \<open>x\<close>.\<close>

definition py_mul_float :: "pyval \<Rightarrow> real \<Rightarrow> exn + pyval" where
  "py_mul_float v x = (case num_of v of
       Some r \<Rightarrow> Inr (PFloat (r * x))
     | None \<Rightarrow> (case v of
         PStr _ \<Rightarrow> Inl (TypeError (''can'' @ [CHR 0x27] @ ''t multiply sequence by non-int of type '' @ quoted ''float''))
       | PList _ \<Rightarrow> Inl (TypeError (''can'' @ [CHR 0x27] @ ''t multiply sequence by non-int of type '' @ quoted ''float''))
       | _ \<Rightarrow> Inl (unsupported_mul v ''float'')))"

text \<open>
  \<^verbatim>\<open>v < x\<close> and \<^verbatim>\<open>v > x\<close> against a float \<open>x\<close>: numbers compare by value,
  anything else raises \<^verbatim>\<open>TypeError\<close>.
\<close>

definition not_supported :: "string \<Rightarrow> pyval \<Rightarrow> exn" where
  "not_supported opr v =
     TypeError (quoted opr @ '' not supported between instances of '' @ quoted (type_name v)
                @ '' and '' @ quoted ''float'')"

definition py_lt_float :: "pyval \<Rightarrow> real \<Rightarrow> exn + bool" where
  "py_lt_float v x = (case num_of v of Some r \<Rightarrow> Inr (r < x) | None \<Rightarrow> Inl (not_supported ''<'' v))"

definition py_gt_float :: "pyval \<Rightarrow> real \<Rightarrow> exn + bool" where
  "py_gt_float v x = (case num_of v of Some r \<Rightarrow> Inr (r > x) | None \<Rightarrow> Inl (not_supported ''>'' v))"

text \<open>
  The two-argument builtins with a float first: \<^verbatim>\<open>max(x, v)\<close> keeps \<open>x\<close> unless
  \<^verbatim>\<open>v > x\<close>, and \<^verbatim>\<open>min(x, v)\<close> keeps \<open>x\<close> unless \<^verbatim>\<open>v < x\<close>.
\<close>

definition py_max :: "real \<Rightarrow> pyval \<Rightarrow> exn + pyval" where
  "py_max x v = and_then (py_gt_float v x) (\<lambda>g. Inr (if g then v else PFloat x))"

definition py_min :: "real \<Rightarrow> pyval \<Rightarrow> exn + pyval" where
  "py_min x v = and_then (py_lt_float v x) (\<lambda>l. Inr (if l then v else PFloat x))"

text \<open>
  \<^verbatim>\<open>float(v)\<close> of a number. (Of a \<^verbatim>\<open>str\<close> Python would parse the text; that is
  not modelled, a \<^verbatim>\<open>str\<close> gives \<^verbatim>\<open>ValueError\<close> here. The scorer only ever
  converts floats, see \<open>clamped_fee_is_float\<close>.)
\<close>

definition py_float :: "pyval \<Rightarrow> exn + real" where
  "py_float v = (case num_of v of
       Some r \<Rightarrow> Inr r
     | None \<Rightarrow> (case v of
         PStr s \<Rightarrow> Inl (ValueError (''could not convert string to float: '' @ quoted s))
       | _ \<Rightarrow> Inl (TypeError (''float() argument must be a string or a real number, not ''
                               @ quoted (type_name v)))))"

text \<open>\<^verbatim>\<open>xs[0]\<close>.\<close>

definition subscript0 :: "'a list \<Rightarrow> exn + 'a" where
  "subscript0 xs = (case xs of [] \<Rightarrow> Inl (IndexError ''index 0 is out of bounds for axis 0 with size 0'')
                             | x # _ \<Rightarrow> Inr x)"

section \<open>The anomaly model, the disk and the process state\<close>

text \<open>
  An \<^verbatim>\<open>IsolationForest\<close> object is kept symbolically: the three hyperparameters the
  service passes (every other one has the library's default) and the sample it was fitted on,
  \<open>None\<close> while unfitted. With an integer \<^verbatim>\<open>random_state\<close> the fitted forest is
  determined by exactly these.
\<close>

datatype estimator =
  IsolationForest (contamination: real) (random_state: int) (n_estimators: int)
                  (fitted_on: "real list list option")

text \<open>\<^verbatim>\<open>est.fit(X)\<close> changes the object in place.\<close>

definition fit :: "estimator \<Rightarrow> real list list \<Rightarrow> estimator" where
  "fit est X = (case est of IsolationForest c r n _ \<Rightarrow> IsolationForest c r n (Some X))"

text \<open>
  What the numerical libraries compute is not part of the repository: \<^verbatim>\<open>np.array\<close>,
  \<^verbatim>\<open>predict\<close> and \<^verbatim>\<open>decision_function\<close> are parameters. Each may raise; the latter
  two return one entry per row of the input.
\<close>

record 'arr libs =
  np_array :: "pyval list list \<Rightarrow> exn + 'arr"
  predict :: "estimator \<Rightarrow> 'arr \<Rightarrow> exn + int list"
  decision_function :: "estimator \<Rightarrow> 'arr \<Rightarrow> exn + real list"

text \<open>
  The working directory, as far as \<^verbatim>\<open>load_or_create_model\<close> touches it: regular files
  with what unpickling them gives, directories, and whether the directory tree refuses writes.
  The messages of the operating system's errors are shortened.
\<close>

datatype artifact = Pickle estimator | Corrupt | Unreadable

record fs =
  files :: "(string \<times> artifact) list"
  dirs :: "string list"
  read_only :: bool

definition os_path_exists :: "fs \<Rightarrow> string \<Rightarrow> bool" where
  "os_path_exists d p = (map_of (files d) p \<noteq> None \<or> p \<in> set (dirs d))"

definition joblib_load :: "fs \<Rightarrow> string \<Rightarrow> exn + estimator" where
  "joblib_load d p = (case map_of (files d) p of
       Some (Pickle est) \<Rightarrow> Inr est
     | Some Corrupt \<Rightarrow> Inl (UnpicklingError ''invalid load key'')
     | Some Unreadable \<Rightarrow> Inl (OSError ''Permission denied'')
     | None \<Rightarrow> if p \<in> set (dirs d) then Inl (OSError ''Is a directory'')
               else Inl (OSError ''No such file or directory''))"

text \<open>\<^verbatim>\<open>os.makedirs(name, exist_ok=True)\<close> for a name of one component.\<close>

definition os_makedirs :: "fs \<Rightarrow> string \<Rightarrow> exn + fs" where
  "os_makedirs d name =
     (if name \<in> set (dirs d) then Inr d
      else if map_of (files d) name \<noteq> None then Inl (OSError ''File exists'')
      else if read_only d then Inl (OSError ''Permission denied'')
      else Inr (d\<lparr>dirs := name # dirs d\<rparr>))"

text \<open>The directory part of a relative path: what precedes its last slash.\<close>

definition parent_dir :: "string \<Rightarrow> string" where
  "parent_dir p = rev (tl (dropWhile (\<lambda>c. c \<noteq> CHR ''/'') (rev p)))"

text \<open>
  \<^verbatim>\<open>joblib.dump(obj, path)\<close> creates or replaces the file; it needs the directory of
  \<open>path\<close> to exist (the working directory itself always does) and to accept writes.
\<close>

definition joblib_dump :: "estimator \<Rightarrow> fs \<Rightarrow> string \<Rightarrow> exn + fs" where
  "joblib_dump est d p =
     (if parent_dir p \<noteq> [] \<and> parent_dir p \<notin> set (dirs d) then Inl (OSError ''No such file or directory'')
      else if p \<in> set (dirs d) then Inl (OSError ''Is a directory'')
      else if read_only d then Inl (OSError ''Permission denied'')
      else Inr (d\<lparr>files := (p, Pickle est) # files d\<rparr>))"

text \<open>
  Log records: the rendered message for the plain ones; the two scores themselves where the
  message formats them to two decimals, and the port number where it prints it.
\<close>

datatype log_record =
    Info string
  | Info_scored real real
  | Info_port int
  | Error string

text \<open>The module's global \<^verbatim>\<open>tx_anomaly_model\<close>, the disk, and the log written so far.\<close>

record state =
  tx_anomaly_model :: "estimator option"
  disk :: fs
  logged :: "log_record list"

definition logger :: "log_record \<Rightarrow> state \<Rightarrow> state" where
  "logger r s = s\<lparr>logged := logged s @ [r]\<rparr>"

definition model_path :: string where
  "model_path = ''models/tx_anomaly_model.pkl''"

section \<open>Model start-up: \<^verbatim>\<open>load_or_create_model\<close>\<close>

definition dummy_data :: "real list list" where
  "dummy_data =
     [[2, 2, 100.0, 100.0, 1.0, 0.01, 0.95, 1],
      [1, 1, 50.0, 50.0, 0.5, 0.01, 1.0, 1],
      [3, 3, 200.0, 200.0, 2.0, 0.01, 0.9, 1]]"

text \<open>
  The function returns nothing; its result here is the exception that left it, if any,
  together with the state it leaves behind (assignments and writes made before a raise stay).
\<close>

definition load_or_create_model :: "state \<Rightarrow> exn option \<times> state" where
  "load_or_create_model s =
     (if os_path_exists (disk s) model_path then
        let s1 = logger (Info (''Loading model from '' @ model_path)) s in
        (case joblib_load (disk s1) model_path of
           Inl e \<Rightarrow> (Some e, s1)
         | Inr est \<Rightarrow> (None, s1\<lparr>tx_anomaly_model := Some est\<rparr>))
      else
        let s1 = logger (Info ''Creating new IsolationForest model'') s;
            s2 = s1\<lparr>tx_anomaly_model := Some (IsolationForest 0.1 42 100 None)\<rparr>;
            est = fit (IsolationForest 0.1 42 100 None) dummy_data;
            s3 = s2\<lparr>tx_anomaly_model := Some est\<rparr>
        in
        (case os_makedirs (disk s3) ''models'' of
           Inl e \<Rightarrow> (Some e, s3)
         | Inr d \<Rightarrow>
            let s4 = s3\<lparr>disk := d\<rparr> in
            (case joblib_dump est (disk s4) model_path of
               Inl e \<Rightarrow> (Some e, s4)
             | Inr d' \<Rightarrow> (None, logger (Info (''Model saved to '' @ model_path)) (s4\<lparr>disk := d'\<rparr>)))))"

text \<open>
  The script's entry point: load or create the model, read the port, announce it and serve.
  An exception that leaves \<^verbatim>\<open>load_or_create_model\<close> is caught nowhere and ends the
  process. The outcome of \<^verbatim>\<open>int(os.getenv('PORT', 5000))\<close> is a parameter.
\<close>

datatype process = Crashed exn state | Serving int state

definition main :: "exn + int \<Rightarrow> state \<Rightarrow> process" where
  "main port_env s =
     (case load_or_create_model s of
        (Some e, s') \<Rightarrow> Crashed e s'
      | (None, s') \<Rightarrow>
         (case port_env of
            Inl e \<Rightarrow> Crashed e s'
          | Inr port \<Rightarrow> Serving port (logger (Info_port port) s')))"

section \<open>The scoring endpoint: \<^verbatim>\<open>score_transaction\<close>\<close>

text \<open>
  A response is a status code with the JSON object sent. What \<^verbatim>\<open>request.get_json()\<close>
  does is given with the request: it raises, or returns the parsed body.
\<close>

datatype response = Response (status: nat) (body: "(string \<times> pyval) list")

type_synonym request = "exn + pyval"

text \<open>The row of eight features, in the order the model was fitted with.\<close>

definition feature_row :: "(string \<times> pyval) list \<Rightarrow> pyval list" where
  "feature_row d =
     [dict_get d ''num_inputs'' (PInt 0),
      dict_get d ''num_outputs'' (PInt 0),
      dict_get d ''total_input'' (PFloat 0.0),
      dict_get d ''total_output'' (PFloat 0.0),
      dict_get d ''fee'' (PFloat 0.0),
      dict_get d ''fee_rate'' (PFloat 0.0),
      dict_get d ''change_ratio'' (PFloat 0.0),
      dict_get d ''input_diversity'' (PInt 0)]"

text \<open>\<^verbatim>\<open>tx_anomaly_model.predict\<close> and \<^verbatim>\<open>.decision_function\<close>: \<^verbatim>\<open>None\<close> has neither.\<close>

definition model_attr :: "estimator option \<Rightarrow> string \<Rightarrow> exn + estimator" where
  "model_attr g name = (case g of
       None \<Rightarrow> Inl (AttributeError (quoted ''NoneType'' @ '' object has no attribute '' @ quoted name))
     | Some est \<Rightarrow> Inr est)"

text \<open>
  The anomaly part. The label is computed and turned into a score first; the
  decision score then replaces that score.
\<close>

definition anomaly_part :: "'arr libs \<Rightarrow> estimator option \<Rightarrow> 'arr \<Rightarrow> exn + pyval" where
  "anomaly_part L g features =
     and_then (model_attr g ''predict'') (\<lambda>est.
     and_then (predict L est features) (\<lambda>labels.
     and_then (subscript0 labels) (\<lambda>prediction.
     let anomaly_score = PFloat (if prediction = - 1 then 1.0 else 0.0) in
     and_then (model_attr g ''decision_function'') (\<lambda>est.
     and_then (decision_function L est features) (\<lambda>scores.
     and_then (subscript0 scores) (\<lambda>decision_score.
     and_then (py_min 1.0 (PFloat (0.5 - decision_score))) (\<lambda>inner.
     and_then (py_max 0.0 inner) (\<lambda>normalized_score.
     let anomaly_score = normalized_score in
     Inr anomaly_score))))))))"

text \<open>The fee heuristic.\<close>

definition fee_part :: "(string \<times> pyval) list \<Rightarrow> exn + pyval" where
  "fee_part d =
     (let fee_rate = dict_get d ''fee_rate'' (PFloat 0.0) in
      and_then (py_mul_int fee_rate 100) (\<lambda>scaled.
      and_then (py_max 0.0 scaled) (\<lambda>inner.
      and_then (py_min 1.0 inner) (\<lambda>fee_adequacy.
      let fee = dict_get d ''fee'' (PFloat 0.0) in
      and_then (py_lt_float fee 0.1) (\<lambda>low.
      if low then py_mul_float fee_adequacy 0.5 else Inr fee_adequacy)))))"

text \<open>
  The body of the \<^verbatim>\<open>try\<close>: it returns a response and the state (only the log grows,
  as the last step before returning 200), or raises.
\<close>

definition score_try :: "'arr libs \<Rightarrow> state \<Rightarrow> request \<Rightarrow> exn + response \<times> state" where
  "score_try L s rq =
     and_then rq (\<lambda>data.
     if \<not> truthy data then Inr (Response 400 [(''error'', PStr ''No JSON data provided'')], s)
     else
     and_then (attr_get data) (\<lambda>d.
     and_then (np_array L [feature_row d]) (\<lambda>features.
     and_then (anomaly_part L (tx_anomaly_model s) features) (\<lambda>anomaly_score.
     and_then (fee_part d) (\<lambda>fee_adequacy.
     and_then (py_float anomaly_score) (\<lambda>a.
     and_then (py_float fee_adequacy) (\<lambda>f.
     Inr (Response 200
            [(''anomaly_score'', PFloat a),
             (''fee_adequacy'', PFloat f),
             (''message'', PStr ''Transaction scored successfully'')],
          logger (Info_scored a f) s))))))))"

text \<open>The handler: whatever the body raises becomes a logged 500.\<close>

definition score_transaction :: "'arr libs \<Rightarrow> state \<Rightarrow> request \<Rightarrow> response \<times> state" where
  "score_transaction L s rq =
     (case score_try L s rq of
        Inr out \<Rightarrow> out
      | Inl e \<Rightarrow> (Response 500 [(''error'', PStr (str_exn e))],
                 logger (Error (''Error scoring transaction: '' @ str_exn e)) s))"

section \<open>The specification's formulas and some concrete inputs\<close>

text \<open>
  The specification writes both scores with \<open>clamp(x, lo, hi)\<close>, the value of \<open>x\<close>
  limited to the interval from \<open>lo\<close> to \<open>hi\<close>; this definition follows its wording,
  not the code.
\<close>

definition clamp :: "real \<Rightarrow> real \<Rightarrow> real \<Rightarrow> real" where
  "clamp x lo hi = max lo (min hi x)"

text \<open>What a response carries under a key.\<close>

definition returned :: "response \<Rightarrow> string \<Rightarrow> pyval option" where
  "returned resp k = map_of (body resp) k"

text \<open>The model that a cold start builds.\<close>

definition bootstrap_model :: estimator where
  "bootstrap_model = IsolationForest 0.1 42 100 (Some dummy_data)"

text \<open>
  Libraries for the examples: arrays are the nested lists themselves, and every row is labelled
  \<open>1\<close> with decision score \<open>0.1\<close>.
\<close>

definition example_libs :: "pyval list list libs" where
  "example_libs = \<lparr>np_array = (\<lambda>rows. Inr rows),
                    predict = (\<lambda>est rows. Inr (map (\<lambda>_. 1) rows)),
                    decision_function = (\<lambda>est rows. Inr (map (\<lambda>_. 0.1) rows))\<rparr>"

definition fresh_state :: state where
  "fresh_state = \<lparr>tx_anomaly_model = None,
                   disk = \<lparr>files = [], dirs = [], read_only = False\<rparr>,
                   logged = []\<rparr>"

definition warm_state :: state where
  "warm_state = \<lparr>tx_anomaly_model = Some bootstrap_model,
                  disk = \<lparr>files = [(model_path, Pickle bootstrap_model)], dirs = [''models''],
                          read_only = False\<rparr>,
                  logged = []\<rparr>"

text \<open>No artifact yet, and the directory tree refuses writes.\<close>

definition read_only_state :: state where
  "read_only_state = \<lparr>tx_anomaly_model = None,
                       disk = \<lparr>files = [], dirs = [''models''], read_only = True\<rparr>,
                       logged = []\<rparr>"

text \<open>An artifact that does not unpickle.\<close>

definition corrupt_state :: state where
  "corrupt_state = \<lparr>tx_anomaly_model = None,
                     disk = \<lparr>files = [(model_path, Corrupt)], dirs = [''models''],
                             read_only = False\<rparr>,
                     logged = []\<rparr>"

text \<open>The request of the handler's docstring.\<close>

definition example_payload :: "(string \<times> pyval) list" where
  "example_payload =
     [(''num_inputs'', PInt 2), (''num_outputs'', PInt 2),
      (''total_input'', PFloat 100.0), (''total_output'', PFloat 99.0),
      (''fee'', PFloat 1.0), (''fee_rate'', PFloat 0.01),
      (''change_ratio'', PFloat 0.99), (''input_diversity'', PInt 1)]"

text \<open>
  Another model behaviour (decision score \<open>- 0.3\<close>) and another payload with the same
  \<open>fee\<close> and \<open>fee_rate\<close>.
\<close>

definition other_libs :: "pyval list list libs" where
  "other_libs = example_libs\<lparr>decision_function := (\<lambda>est rows. Inr (map (\<lambda>_. - 0.3) rows))\<rparr>"

definition other_payload :: "(string \<times> pyval) list" where
  "other_payload = [(''num_inputs'', PInt 50), (''fee_rate'', PFloat 0.01), (''fee'', PFloat 1.0)]"


section \<open>Properties of the operators and of the two score computations\<close>

lemma and_then_Inl [simp]: "and_then (Inl e) f = Inl e"
  by (simp add: and_then_def)

lemma and_then_Inr [simp]: "and_then (Inr x) f = f x"
  by (simp add: and_then_def)

lemma and_then_eq_Inr: "(and_then m f = Inr y) = (\<exists>x. m = Inr x \<and> f x = Inr y)"
  by (cases m) simp_all

lemma py_max_Inr: "(py_max x v = Inr w) = (\<exists>r. num_of v = Some r \<and> w = (if r > x then v else PFloat x))"
  by (auto simp: py_max_def py_gt_float_def split: option.splits)

lemma py_min_Inr: "(py_min x v = Inr w) = (\<exists>r. num_of v = Some r \<and> w = (if r < x then v else PFloat x))"
  by (auto simp: py_min_def py_lt_float_def split: option.splits)

lemma clamp_pipeline:
  assumes "py_max 0 w = Inr m" and "py_min 1 m = Inr c"
  shows "\<exists>r. num_of w = Some r \<and> c = PFloat (clamp r 0 1)"
  using assms by (cases w) (auto simp: py_max_Inr py_min_Inr clamp_def split: if_splits)

lemma py_mul_int_num:
  assumes "py_mul_int v n = Inr w" and "num_of w = Some r"
  shows "\<exists>q. num_of v = Some q \<and> r = q * of_int n"
  using assms by (cases v) (auto split: if_splits)

lemma fee_part_Inr:
  assumes "fee_part d = Inr v"
  shows "\<exists>fr fe. num_of (dict_get d ''fee_rate'' (PFloat 0.0)) = Some fr
               \<and> num_of (dict_get d ''fee'' (PFloat 0.0)) = Some fe
               \<and> v = PFloat (if fe < 0.1 then clamp (fr * 100) 0 1 * 0.5 else clamp (fr * 100) 0 1)"
proof -
  from assms obtain scaled inner fa low where
    sc: "py_mul_int (dict_get d ''fee_rate'' (PFloat 0.0)) 100 = Inr scaled" and
    mx: "py_max 0 scaled = Inr inner" and
    mn: "py_min 1 inner = Inr fa" and
    lt: "py_lt_float (dict_get d ''fee'' (PFloat 0.0)) 0.1 = Inr low" and
    v: "(if low then py_mul_float fa 0.5 else Inr fa) = Inr v"
    by (auto simp: fee_part_def and_then_eq_Inr Let_def)
  from clamp_pipeline [OF mx mn] obtain r where
    r: "num_of scaled = Some r" and fa: "fa = PFloat (clamp r 0 1)" by blast
  from py_mul_int_num [OF sc r] obtain fr where
    fr: "num_of (dict_get d ''fee_rate'' (PFloat 0.0)) = Some fr" and rfr: "r = fr * 100" by auto
  from lt obtain fe where
    fe: "num_of (dict_get d ''fee'' (PFloat 0.0)) = Some fe" and low: "low = (fe < 0.1)"
    by (auto simp: py_lt_float_def split: option.splits)
  from v fa low rfr have "v = PFloat (if fe < 0.1 then clamp (fr * 100) 0 1 * 0.5 else clamp (fr * 100) 0 1)"
    by (auto simp: py_mul_float_def split: if_splits)
  with fr fe show ?thesis by blast
qed

lemma anomaly_part_Inr:
  assumes "anomaly_part L g arr = Inr v"
  shows "\<exists>est lbl lbls dsc dscs. g = Some est
            \<and> predict L est arr = Inr (lbl # lbls)
            \<and> decision_function L est arr = Inr (dsc # dscs)
            \<and> v = PFloat (clamp (0.5 - dsc) 0 1)"
proof -
  from assms obtain est labels prediction scores dsc inner where
    g: "model_attr g ''predict'' = Inr est" and
    p: "predict L est arr = Inr labels" and
    l: "subscript0 labels = Inr prediction" and
    g': "model_attr g ''decision_function'' = Inr est" and
    d: "decision_function L est arr = Inr scores" and
    s: "subscript0 scores = Inr dsc" and
    mn: "py_min 1 (PFloat (0.5 - dsc)) = Inr inner" and
    mx: "py_max 0 inner = Inr v"
    by (auto simp: anomaly_part_def and_then_eq_Inr Let_def model_attr_def split: option.splits)
  from g have "g = Some est" by (auto simp: model_attr_def split: option.splits)
  moreover from l p obtain lbls where "predict L est arr = Inr (prediction # lbls)"
    by (auto simp: subscript0_def split: list.splits)
  moreover from s d obtain dscs where "decision_function L est arr = Inr (dsc # dscs)"
    by (auto simp: subscript0_def split: list.splits)
  moreover from mn mx have "v = PFloat (clamp (0.5 - dsc) 0 1)"
    by (auto simp: py_max_Inr py_min_Inr clamp_def split: if_splits)
  ultimately show ?thesis by blast
qed

text \<open>So \<^verbatim>\<open>float()\<close> in the handler is only ever applied to a float.\<close>

lemma clamped_fee_is_float: "fee_part d = Inr v \<Longrightarrow> \<exists>f. v = PFloat f"
  by (drule fee_part_Inr) blast

lemma clamp_bounds: "0 \<le> clamp x 0 1 \<and> clamp x 0 1 \<le> 1"
  by (simp add: clamp_def)

section \<open>What a request is answered with\<close>

text \<open>
  When the body of the \<^verbatim>\<open>try\<close> returns, it returns either the 400 for a falsy
  document or a 200 whose two scores are the specification's formulas.
\<close>

lemma score_try_Inr:
  assumes "score_try L s rq = Inr (resp, s')"
  shows "(\<exists>data. rq = Inr data \<and> \<not> truthy data
            \<and> resp = Response 400 [(''error'', PStr ''No JSON data provided'')] \<and> s' = s)
       \<or> (\<exists>d arr est lbl lbls dsc dscs fr fe.
            rq = Inr (PDict d) \<and> d \<noteq> []
            \<and> np_array L [feature_row d] = Inr arr
            \<and> tx_anomaly_model s = Some est
            \<and> predict L est arr = Inr (lbl # lbls)
            \<and> decision_function L est arr = Inr (dsc # dscs)
            \<and> num_of (dict_get d ''fee_rate'' (PFloat 0.0)) = Some fr
            \<and> num_of (dict_get d ''fee'' (PFloat 0.0)) = Some fe
            \<and> resp = Response 200
                 [(''anomaly_score'', PFloat (clamp (0.5 - dsc) 0 1)),
                  (''fee_adequacy'',
                     PFloat (if fe < 0.1 then clamp (fr * 100) 0 1 * 0.5 else clamp (fr * 100) 0 1)),
                  (''message'', PStr ''Transaction scored successfully'')]
            \<and> s' = logger (Info_scored (clamp (0.5 - dsc) 0 1)
                       (if fe < 0.1 then clamp (fr * 100) 0 1 * 0.5 else clamp (fr * 100) 0 1)) s)"
proof -
  from assms obtain data where rq: "rq = Inr data"
    by (cases rq) (simp_all add: score_try_def)
  show ?thesis
  proof (cases "truthy data")
    case False
    with assms rq show ?thesis by (simp add: score_try_def)
  next
    case True
    with assms rq obtain d arr av fv a f where
      d: "attr_get data = Inr d" and
      arr: "np_array L [feature_row d] = Inr arr" and
      av: "anomaly_part L (tx_anomaly_model s) arr = Inr av" and
      fv: "fee_part d = Inr fv" and
      a: "py_float av = Inr a" and f: "py_float fv = Inr f" and
      resp: "resp = Response 200 [(''anomaly_score'', PFloat a), (''fee_adequacy'', PFloat f),
                 (''message'', PStr ''Transaction scored successfully'')]" and
      s': "s' = logger (Info_scored a f) s"
      by (auto simp: score_try_def and_then_eq_Inr)
    from d have data: "data = PDict d" by (cases data) (simp_all add: attr_get_def)
    with True have ne: "d \<noteq> []" by simp
    from anomaly_part_Inr [OF av] obtain est lbl lbls dsc dscs where
      m: "tx_anomaly_model s = Some est" and
      p: "predict L est arr = Inr (lbl # lbls)" and
      dc: "decision_function L est arr = Inr (dsc # dscs)" and
      avd: "av = PFloat (clamp (0.5 - dsc) 0 1)" by blast
    from fee_part_Inr [OF fv] obtain fr fe where
      fr: "num_of (dict_get d ''fee_rate'' (PFloat 0.0)) = Some fr" and
      fe: "num_of (dict_get d ''fee'' (PFloat 0.0)) = Some fe" and
      fvd: "fv = PFloat (if fe < 0.1 then clamp (fr * 100) 0 1 * 0.5 else clamp (fr * 100) 0 1)"
      by blast
    from a avd have a': "a = clamp (0.5 - dsc) 0 1" by (simp add: py_float_def)
    from f fvd have f': "f = (if fe < 0.1 then clamp (fr * 100) 0 1 * 0.5 else clamp (fr * 100) 0 1)"
      by (simp add: py_float_def)
    show ?thesis
      using rq data ne arr m p dc fr fe resp s' a' f' by blast
  qed
qed

lemma score_transaction_200:
  assumes "score_transaction L s rq = (resp, s')" and "status resp = 200"
  shows "\<exists>d arr est lbl lbls dsc dscs fr fe.
            rq = Inr (PDict d) \<and> d \<noteq> []
            \<and> np_array L [feature_row d] = Inr arr
            \<and> tx_anomaly_model s = Some est
            \<and> predict L est arr = Inr (lbl # lbls)
            \<and> decision_function L est arr = Inr (dsc # dscs)
            \<and> num_of (dict_get d ''fee_rate'' (PFloat 0.0)) = Some fr
            \<and> num_of (dict_get d ''fee'' (PFloat 0.0)) = Some fe
            \<and> resp = Response 200
                 [(''anomaly_score'', PFloat (clamp (0.5 - dsc) 0 1)),
                  (''fee_adequacy'',
                     PFloat (if fe < 0.1 then clamp (fr * 100) 0 1 * 0.5 else clamp (fr * 100) 0 1)),
                  (''message'', PStr ''Transaction scored successfully'')]
            \<and> s' = logger (Info_scored (clamp (0.5 - dsc) 0 1)
                       (if fe < 0.1 then clamp (fr * 100) 0 1 * 0.5 else clamp (fr * 100) 0 1)) s"
proof (cases "score_try L s rq")
  case (Inl e)
  with assms show ?thesis by (auto simp: score_transaction_def)
next
  case (Inr out)
  with assms have "score_try L s rq = Inr (resp, s')" by (simp add: score_transaction_def)
  from score_try_Inr [OF this] assms(2) show ?thesis by auto
qed

lemma example_scored:
  "score_transaction example_libs warm_state (Inr (PDict example_payload)) =
     (Response 200 [(''anomaly_score'', PFloat 0.4), (''fee_adequacy'', PFloat 1),
                    (''message'', PStr ''Transaction scored successfully'')],
      logger (Info_scored 0.4 1) warm_state)"
  by (simp add: score_transaction_def score_try_def attr_get_def example_libs_def warm_state_def
      example_payload_def feature_row_def dict_get_def anomaly_part_def model_attr_def
      subscript0_def py_min_def py_max_def py_lt_float_def py_gt_float_def fee_part_def
      py_float_def py_mul_float_def logger_def)

text \<open>
  Conversely the handler does answer 200 whenever the document is a non-empty dict, the
  library calls return, and \<open>fee_rate\<close> and \<open>fee\<close> are numbers or absent.
\<close>

lemma fee_part_succeeds:
  assumes "num_of (dict_get d ''fee_rate'' (PFloat 0.0)) = Some fr"
    and "num_of (dict_get d ''fee'' (PFloat 0.0)) = Some fe"
  shows "\<exists>v. fee_part d = Inr v"
proof -
  from assms(1) obtain scaled r where
    sc: "py_mul_int (dict_get d ''fee_rate'' (PFloat 0.0)) 100 = Inr scaled" and
    r: "num_of scaled = Some r"
    by (cases "dict_get d ''fee_rate'' (PFloat 0.0)") auto
  from r obtain inner r' where mx: "py_max 0 scaled = Inr inner" and r': "num_of inner = Some r'"
    by (cases "0 < r") (auto simp: py_max_Inr)
  from r' obtain fa r'' where mn: "py_min 1 inner = Inr fa" and r'': "num_of fa = Some r''"
    by (cases "r' < 1") (auto simp: py_min_Inr)
  from r'' have "\<exists>v. py_mul_float fa 0.5 = Inr v" by (simp add: py_mul_float_def)
  with sc mx mn assms(2) show ?thesis
    by (auto simp: fee_part_def py_lt_float_def Let_def)
qed

lemma score_transaction_succeeds:
  assumes "d \<noteq> []"
    and "np_array L [feature_row d] = Inr arr"
    and "tx_anomaly_model s = Some est"
    and "predict L est arr = Inr (lbl # lbls)"
    and "decision_function L est arr = Inr (dsc # dscs)"
    and "num_of (dict_get d ''fee_rate'' (PFloat 0.0)) = Some fr"
    and "num_of (dict_get d ''fee'' (PFloat 0.0)) = Some fe"
  shows "status (fst (score_transaction L s (Inr (PDict d)))) = 200"
proof -
  have "\<exists>a. anomaly_part L (Some est) arr = Inr (PFloat a)"
    using assms(4,5)
    by (simp add: anomaly_part_def model_attr_def subscript0_def py_min_def py_max_def
        py_lt_float_def py_gt_float_def)
  then obtain a where a: "anomaly_part L (Some est) arr = Inr (PFloat a)" by blast
  from fee_part_succeeds [OF assms(6,7)] obtain v where v: "fee_part d = Inr v" by blast
  from clamped_fee_is_float [OF v] obtain f where "v = PFloat f" by blast
  with v a assms(1,2,3) show ?thesis
    by (simp add: score_transaction_def score_try_def attr_get_def py_float_def)
qed

lemma no_field_is_needed:
  assumes "map_of d ''fee_rate'' = None" and "map_of d ''fee'' = None"
  shows "num_of (dict_get d ''fee_rate'' (PFloat 0.0)) = Some 0
       \<and> num_of (dict_get d ''fee'' (PFloat 0.0)) = Some 0"
  using assms by (simp add: dict_get_def)

section \<open>The claims about scoring\<close>

text \<open>
  Claim C1. Whenever a payload is scored, that is whenever the handler answers 200, the
  \<open>anomaly_score\<close> it returns is a float between 0 and 1 inclusive, and so is the
  \<open>fee_adequacy\<close>. This holds for every model and whatever the libraries compute.
\<close>

theorem scores_lie_in_unit_interval:
  assumes "score_transaction L s rq = (resp, s')" and "status resp = 200"
  shows "\<exists>a f. returned resp ''anomaly_score'' = Some (PFloat a) \<and> 0 \<le> a \<and> a \<le> 1
             \<and> returned resp ''fee_adequacy'' = Some (PFloat f) \<and> 0 \<le> f \<and> f \<le> 1"
proof -
  from score_transaction_200 [OF assms] obtain dsc fr and fe :: real where
    resp: "resp = Response 200
                 [(''anomaly_score'', PFloat (clamp (0.5 - dsc) 0 1)),
                  (''fee_adequacy'',
                     PFloat (if fe < 0.1 then clamp (fr * 100) 0 1 * 0.5 else clamp (fr * 100) 0 1)),
                  (''message'', PStr ''Transaction scored successfully'')]"
    by blast
  let ?a = "clamp (0.5 - dsc) 0 1"
  let ?f = "if fe < 0.1 then clamp (fr * 100) 0 1 * 0.5 else clamp (fr * 100) 0 1"
  have "returned resp ''anomaly_score'' = Some (PFloat ?a)"
    and "returned resp ''fee_adequacy'' = Some (PFloat ?f)"
    using resp by (simp_all add: returned_def)
  moreover have "0 \<le> ?a \<and> ?a \<le> 1" by (rule clamp_bounds)
  moreover have "0 \<le> ?f \<and> ?f \<le> 1"
    using clamp_bounds [of "fr * 100"] by auto
  ultimately show ?thesis by blast
qed

theorem scores_lie_in_unit_interval_witness:
  "status (fst (score_transaction example_libs warm_state (Inr (PDict example_payload)))) = 200
   \<and> (\<exists>a f. returned (fst (score_transaction example_libs warm_state (Inr (PDict example_payload))))
                ''anomaly_score'' = Some (PFloat a) \<and> 0 \<le> a \<and> a \<le> 1
             \<and> returned (fst (score_transaction example_libs warm_state (Inr (PDict example_payload))))
                ''fee_adequacy'' = Some (PFloat f) \<and> 0 \<le> f \<and> f \<le> 1)"
proof -
  have st: "status (fst (score_transaction example_libs warm_state (Inr (PDict example_payload)))) = 200"
    by (simp add: example_scored)
  from scores_lie_in_unit_interval [OF surjective_pairing st] st show ?thesis by blast
qed

text \<open>
  Claim C2. Feature extraction gives every absent field its default, \<open>0\<close> or \<open>0.0\<close>,
  also when all eight are absent: a payload holding only an unrelated key is scored on the
  all-zero row. The JSON object \<^verbatim>\<open>{}\<close> has the same row, yet the handler never
  extracts from it: the test \<^verbatim>\<open>not data\<close>, whose message is "No JSON data provided",
  is true of the empty dict as it is of a missing document, and the request is answered 400.
\<close>

theorem empty_object_is_rejected:
  "feature_row [] = [PInt 0, PInt 0, PFloat 0, PFloat 0, PFloat 0, PFloat 0, PFloat 0, PInt 0]
   \<and> feature_row [(''memo'', PStr ''x'')] = feature_row []
   \<and> status (fst (score_transaction example_libs warm_state (Inr (PDict [(''memo'', PStr ''x'')])))) = 200
   \<and> score_transaction L s (Inr (PDict [])) =
       (Response 400 [(''error'', PStr ''No JSON data provided'')], s)"
proof -
  have "status (fst (score_transaction example_libs warm_state (Inr (PDict [(''memo'', PStr ''x'')])))) = 200"
    by (rule score_transaction_succeeds
          [where fr = 0 and fe = 0 and arr = "[feature_row [(''memo'', PStr ''x'')]]"
             and est = bootstrap_model and lbl = 1 and lbls = "[]" and dsc = "0.1" and dscs = "[]"])
       (simp_all add: example_libs_def warm_state_def dict_get_def)
  then show ?thesis
    by (simp add: feature_row_def dict_get_def score_transaction_def score_try_def)
qed

text \<open>
  The label only matters through whether \<^verbatim>\<open>predict\<close> returns at all: any other
  \<^verbatim>\<open>predict\<close> that returns a label for the same input leads to the same run.
\<close>

lemma anomaly_part_label_irrelevant:
  assumes "predict L est arr = Inr (lbl # lbls)" and "p est arr = Inr (lbl' # lbls')"
  shows "anomaly_part (L\<lparr>predict := p\<rparr>) (Some est) arr = anomaly_part L (Some est) arr"
  using assms by (simp add: anomaly_part_def model_attr_def subscript0_def)

lemma score_try_label_irrelevant:
  assumes "rq = Inr (PDict d)" and "np_array L [feature_row d] = Inr arr"
    and "tx_anomaly_model s = Some est"
    and "predict L est arr = Inr (lbl # lbls)" and "p est arr = Inr (lbl' # lbls')"
  shows "score_try (L\<lparr>predict := p\<rparr>) s rq = score_try L s rq"
  using assms(1-3) anomaly_part_label_irrelevant [where p = p, OF assms(4,5)]
  by (simp add: score_try_def attr_get_def)

lemma length_feature_row: "length (feature_row d) = 8"
  by (simp add: feature_row_def)

text \<open>
  Claim C3. In every 200 response the \<open>anomaly_score\<close> is
  \<open>clamp(0.5 - decisionScore, 0.0, 1.0)\<close>, where \<open>decisionScore\<close> is the first entry that
  \<^verbatim>\<open>decision_function\<close> returns for the global model on the array made of one row: the
  payload's \<open>num_inputs\<close>, \<open>num_outputs\<close>, \<open>total_input\<close>, \<open>total_output\<close>, \<open>fee\<close>,
  \<open>fee_rate\<close>, \<open>change_ratio\<close> and \<open>input_diversity\<close> in this order, each replaced by
  zero where the payload lacks it. The response has the three keys \<open>anomaly_score\<close>,
  \<open>fee_adequacy\<close> and \<open>message\<close> and no label; and the label does not influence it:
  replacing \<^verbatim>\<open>predict\<close> by any function that returns some label on this input gives
  the same response.
\<close>

theorem anomaly_score_is_clamped_decision_score:
  assumes "score_transaction L s rq = (resp, s')" and "status resp = 200"
  shows "\<exists>d arr est dsc dscs.
           rq = Inr (PDict d)
           \<and> np_array L
                [[case map_of d ''num_inputs'' of Some v \<Rightarrow> v | None \<Rightarrow> PInt 0,
                  case map_of d ''num_outputs'' of Some v \<Rightarrow> v | None \<Rightarrow> PInt 0,
                  case map_of d ''total_input'' of Some v \<Rightarrow> v | None \<Rightarrow> PFloat 0,
                  case map_of d ''total_output'' of Some v \<Rightarrow> v | None \<Rightarrow> PFloat 0,
                  case map_of d ''fee'' of Some v \<Rightarrow> v | None \<Rightarrow> PFloat 0,
                  case map_of d ''fee_rate'' of Some v \<Rightarrow> v | None \<Rightarrow> PFloat 0,
                  case map_of d ''change_ratio'' of Some v \<Rightarrow> v | None \<Rightarrow> PFloat 0,
                  case map_of d ''input_diversity'' of Some v \<Rightarrow> v | None \<Rightarrow> PInt 0]]
               = Inr arr
           \<and> tx_anomaly_model s = Some est
           \<and> decision_function L est arr = Inr (dsc # dscs)
           \<and> returned resp ''anomaly_score'' = Some (PFloat (clamp (0.5 - dsc) 0.0 1.0))
           \<and> map fst (body resp) = [''anomaly_score'', ''fee_adequacy'', ''message'']
           \<and> (\<forall>p lbl lbls. p est arr = Inr (lbl # lbls) \<longrightarrow>
                  fst (score_transaction (L\<lparr>predict := p\<rparr>) s rq) = resp)"
proof -
  from score_transaction_200 [OF assms] obtain d arr est lbl lbls dsc dscs fr and fe :: real where
    rq: "rq = Inr (PDict d)" and
    arr: "np_array L [feature_row d] = Inr arr" and
    m: "tx_anomaly_model s = Some est" and
    p: "predict L est arr = Inr (lbl # lbls)" and
    dc: "decision_function L est arr = Inr (dsc # dscs)" and
    resp: "resp = Response 200
                 [(''anomaly_score'', PFloat (clamp (0.5 - dsc) 0 1)),
                  (''fee_adequacy'',
                     PFloat (if fe < 0.1 then clamp (fr * 100) 0 1 * 0.5 else clamp (fr * 100) 0 1)),
                  (''message'', PStr ''Transaction scored successfully'')]"
    by blast
  have ind: "\<forall>p' lbl' lbls'. p' est arr = Inr (lbl' # lbls') \<longrightarrow>
               fst (score_transaction (L\<lparr>predict := p'\<rparr>) s rq) = resp"
  proof (intro allI impI)
    fix p' lbl' lbls'
    assume "p' est arr = (Inr (lbl' # lbls') :: exn + int list)"
    from score_try_label_irrelevant [where p = p', OF rq arr m p this] assms(1)
    show "fst (score_transaction (L\<lparr>predict := p'\<rparr>) s rq) = resp"
      by (simp add: score_transaction_def)
  qed
  have r: "returned resp ''anomaly_score'' = Some (PFloat (clamp (0.5 - dsc) 0.0 1.0))"
    using resp by (simp add: returned_def)
  have k: "map fst (body resp) = [''anomaly_score'', ''fee_adequacy'', ''message'']"
    using resp by simp
  have row: "np_array L
                [[case map_of d ''num_inputs'' of Some v \<Rightarrow> v | None \<Rightarrow> PInt 0,
                  case map_of d ''num_outputs'' of Some v \<Rightarrow> v | None \<Rightarrow> PInt 0,
                  case map_of d ''total_input'' of Some v \<Rightarrow> v | None \<Rightarrow> PFloat 0,
                  case map_of d ''total_output'' of Some v \<Rightarrow> v | None \<Rightarrow> PFloat 0,
                  case map_of d ''fee'' of Some v \<Rightarrow> v | None \<Rightarrow> PFloat 0,
                  case map_of d ''fee_rate'' of Some v \<Rightarrow> v | None \<Rightarrow> PFloat 0,
                  case map_of d ''change_ratio'' of Some v \<Rightarrow> v | None \<Rightarrow> PFloat 0,
                  case map_of d ''input_diversity'' of Some v \<Rightarrow> v | None \<Rightarrow> PInt 0]]
               = Inr arr"
    using arr by (simp add: feature_row_def dict_get_def)
  show ?thesis
    apply (rule exI [of _ d], rule exI [of _ arr], rule exI [of _ est],
           rule exI [of _ dsc], rule exI [of _ dscs])
    apply (intro conjI)
    apply (rule rq, rule row, rule m, rule dc, rule r, rule k, rule ind)
    done
qed

theorem anomaly_score_is_clamped_decision_score_witness:
  "status (fst (score_transaction example_libs warm_state (Inr (PDict example_payload)))) = 200
   \<and> returned (fst (score_transaction example_libs warm_state (Inr (PDict example_payload))))
        ''anomaly_score'' = Some (PFloat (clamp (0.5 - 0.1) 0.0 1.0))
   \<and> fst (score_transaction (example_libs\<lparr>predict := \<lambda>est rows. Inr [- 1]\<rparr>) warm_state
             (Inr (PDict example_payload)))
      = fst (score_transaction example_libs warm_state (Inr (PDict example_payload)))"
proof -
  let ?rq = "Inr (PDict example_payload) :: request"
  let ?out = "score_transaction example_libs warm_state ?rq"
  have st: "status (fst ?out) = 200"
    by (simp add: example_scored)
  from anomaly_score_is_clamped_decision_score [OF surjective_pairing st]
  obtain arr est dsc dscs row where
    arr: "np_array example_libs [row] = Inr arr" and
    dc: "decision_function example_libs est arr = Inr (dsc # dscs)" and
    r: "returned (fst ?out) ''anomaly_score'' = Some (PFloat (clamp (0.5 - dsc) 0.0 1.0))" and
    ind: "\<forall>p lbl lbls. p est arr = Inr (lbl # lbls) \<longrightarrow>
                  fst (score_transaction (example_libs\<lparr>predict := p\<rparr>) warm_state ?rq) = fst ?out"
    by blast
  from arr have "arr = [row]" by (simp add: example_libs_def)
  with dc have "dsc = 0.1" by (simp add: example_libs_def)
  with r have r': "returned (fst ?out) ''anomaly_score'' = Some (PFloat (clamp (0.5 - 0.1) 0.0 1.0))"
    by simp
  from ind [rule_format, of "\<lambda>est rows. Inr [- 1]" "- 1" "[]"]
  have "fst (score_transaction (example_libs\<lparr>predict := \<lambda>est rows. Inr [- 1]\<rparr>)
       warm_state ?rq) = fst ?out"
    by simp
  with st r' show ?thesis by (intro conjI)
qed

text \<open>Two more requests, evaluated: a low fee, and a payload without \<open>fee_rate\<close>.\<close>

lemmas run_defs = score_transaction_def score_try_def attr_get_def example_libs_def warm_state_def
      feature_row_def dict_get_def anomaly_part_def model_attr_def
      subscript0_def py_min_def py_max_def py_lt_float_def py_gt_float_def fee_part_def
      py_float_def py_mul_float_def

lemma low_fee_scored:
  "fst (score_transaction example_libs warm_state
          (Inr (PDict [(''fee_rate'', PFloat 0.01), (''fee'', PFloat 0.05)]))) =
     Response 200 [(''anomaly_score'', PFloat 0.4), (''fee_adequacy'', PFloat 0.5),
                   (''message'', PStr ''Transaction scored successfully'')]"
  by (simp add: run_defs)

lemma no_fee_rate_scored:
  "fst (score_transaction example_libs warm_state (Inr (PDict [(''fee'', PInt 5)]))) =
     Response 200 [(''anomaly_score'', PFloat 0.4), (''fee_adequacy'', PFloat 0),
                   (''message'', PStr ''Transaction scored successfully'')]"
  by (simp add: run_defs)

text \<open>
  Claim C4. In every 200 response \<open>fee_adequacy\<close> is \<open>clamp(fee_rate * 100, 0.0, 1.0)\<close>,
  times \<open>0.5\<close> exactly when \<open>fee < 0.1\<close>, where \<open>fee_rate\<close> and \<open>fee\<close> are the
  numbers the payload gives (\<open>0.0\<close> for an absent field). In particular \<open>fee_rate = 0.01\<close>
  with \<open>fee = 1.0\<close> gives \<open>1.0\<close>, \<open>fee_rate = 0.01\<close> with \<open>fee = 0.05\<close> gives \<open>0.5\<close>,
  and \<open>fee_rate = 0.0\<close> gives \<open>0.0\<close> whatever the fee.
\<close>

theorem fee_adequacy_formula:
  assumes "score_transaction L s rq = (resp, s')" and "status resp = 200"
  shows "\<exists>d fr fe.
           rq = Inr (PDict d)
           \<and> num_of (dict_get d ''fee_rate'' (PFloat 0.0)) = Some fr
           \<and> num_of (dict_get d ''fee'' (PFloat 0.0)) = Some fe
           \<and> returned resp ''fee_adequacy'' =
               Some (PFloat (if fe < 0.1 then clamp (fr * 100) 0.0 1.0 * 0.5
                             else clamp (fr * 100) 0.0 1.0))
           \<and> (fr = 0.01 \<and> fe = 1.0 \<longrightarrow> returned resp ''fee_adequacy'' = Some (PFloat 1.0))
           \<and> (fr = 0.01 \<and> fe = 0.05 \<longrightarrow> returned resp ''fee_adequacy'' = Some (PFloat 0.5))
           \<and> (fr = 0.0 \<longrightarrow> returned resp ''fee_adequacy'' = Some (PFloat 0.0))"
proof -
  from score_transaction_200 [OF assms] obtain d dsc fr and fe :: real where
    rq: "rq = Inr (PDict d)" and
    fr: "num_of (dict_get d ''fee_rate'' (PFloat 0.0)) = Some fr" and
    fe: "num_of (dict_get d ''fee'' (PFloat 0.0)) = Some fe" and
    resp: "resp = Response 200
                 [(''anomaly_score'', PFloat (clamp (0.5 - dsc) 0 1)),
                  (''fee_adequacy'',
                     PFloat (if fe < 0.1 then clamp (fr * 100) 0 1 * 0.5 else clamp (fr * 100) 0 1)),
                  (''message'', PStr ''Transaction scored successfully'')]"
    by blast
  have r: "returned resp ''fee_adequacy'' =
             Some (PFloat (if fe < 0.1 then clamp (fr * 100) 0.0 1.0 * 0.5
                           else clamp (fr * 100) 0.0 1.0))"
    using resp by (simp add: returned_def)
  have e1: "fr = 0.01 \<and> fe = 1.0 \<longrightarrow> returned resp ''fee_adequacy'' = Some (PFloat 1.0)"
    using r by (simp add: clamp_def)
  have e2: "fr = 0.01 \<and> fe = 0.05 \<longrightarrow> returned resp ''fee_adequacy'' = Some (PFloat 0.5)"
    using r by (simp add: clamp_def)
  have e3: "fr = 0.0 \<longrightarrow> returned resp ''fee_adequacy'' = Some (PFloat 0.0)"
    using r by (simp add: clamp_def)
  show ?thesis
    apply (rule exI [of _ d], rule exI [of _ fr], rule exI [of _ fe])
    apply (intro conjI)
    apply (rule rq, rule fr, rule fe, rule r, rule e1, rule e2, rule e3)
    done
qed

theorem fee_adequacy_formula_witness:
  "status (fst (score_transaction example_libs warm_state (Inr (PDict example_payload)))) = 200
   \<and> returned (fst (score_transaction example_libs warm_state (Inr (PDict example_payload))))
        ''fee_adequacy'' = Some (PFloat 1.0)
   \<and> status (fst (score_transaction example_libs warm_state
          (Inr (PDict [(''fee_rate'', PFloat 0.01), (''fee'', PFloat 0.05)])))) = 200
   \<and> returned (fst (score_transaction example_libs warm_state
          (Inr (PDict [(''fee_rate'', PFloat 0.01), (''fee'', PFloat 0.05)]))))
        ''fee_adequacy'' = Some (PFloat 0.5)"
proof -
  let ?out1 = "score_transaction example_libs warm_state (Inr (PDict example_payload))"
  let ?low = "[(''fee_rate'', PFloat 0.01), (''fee'', PFloat 0.05)]"
  let ?out2 = "score_transaction example_libs warm_state (Inr (PDict ?low))"
  have st1: "status (fst ?out1) = 200" by (simp add: example_scored)
  have st2: "status (fst ?out2) = 200" using low_fee_scored by simp
  from fee_adequacy_formula [OF surjective_pairing st1] obtain d fr fe where
    d: "(Inr (PDict example_payload) :: request) = Inr (PDict d)" and
    fr: "num_of (dict_get d ''fee_rate'' (PFloat 0.0)) = Some fr" and
    fe: "num_of (dict_get d ''fee'' (PFloat 0.0)) = Some fe" and
    e: "fr = 0.01 \<and> fe = 1.0 \<longrightarrow> returned (fst ?out1) ''fee_adequacy'' = Some (PFloat 1.0)"
    by blast
  from d have "d = example_payload" by simp
  with fr fe have "fr = 0.01 \<and> fe = 1.0"
    by (simp add: example_payload_def dict_get_def)
  with e have r1: "returned (fst ?out1) ''fee_adequacy'' = Some (PFloat 1.0)" by blast
  from fee_adequacy_formula [OF surjective_pairing st2] obtain d' fr' fe' where
    d': "(Inr (PDict ?low) :: request) = Inr (PDict d')" and
    fr': "num_of (dict_get d' ''fee_rate'' (PFloat 0.0)) = Some fr'" and
    fe': "num_of (dict_get d' ''fee'' (PFloat 0.0)) = Some fe'" and
    e': "fr' = 0.01 \<and> fe' = 0.05 \<longrightarrow> returned (fst ?out2) ''fee_adequacy'' = Some (PFloat 0.5)"
    by blast
  from d' have "d' = ?low" by simp
  with fr' fe' have "fr' = 0.01 \<and> fe' = 0.05"
    by (simp add: dict_get_def)
  with e' have r2: "returned (fst ?out2) ''fee_adequacy'' = Some (PFloat 0.5)" by blast
  from st1 r1 st2 r2 show ?thesis by (intro conjI)
qed

section \<open>Response shapes, repeatability and independence\<close>








text \<open>
  The response is a function of the request, the libraries and the global model; the handler
  writes only the log.
\<close>

lemma response_depends_on_model_only:
  assumes "tx_anomaly_model s2 = tx_anomaly_model s1"
  shows "fst (score_transaction L s2 rq) = fst (score_transaction L s1 rq)"
  using assms
  by (auto simp: score_transaction_def score_try_def and_then_def split: sum.splits)

lemma score_transaction_keeps_model:
  "tx_anomaly_model (snd (score_transaction L s rq)) = tx_anomaly_model s
   \<and> disk (snd (score_transaction L s rq)) = disk s"
  by (auto simp: score_transaction_def score_try_def and_then_def logger_def split: sum.splits)

text \<open>
  Claim C9. Scoring leaves the global model and the disk as they were, so the same request
  sent again gets the same response; more generally any two states holding the same model
  answer a request identically. (The libraries' functions are mathematical functions here:
  that \<^verbatim>\<open>predict\<close> and \<^verbatim>\<open>decision_function\<close> draw no random numbers is an
  assumption of the model, not a result.)
\<close>

theorem scoring_is_repeatable:
  "tx_anomaly_model (snd (score_transaction L s rq)) = tx_anomaly_model s
   \<and> disk (snd (score_transaction L s rq)) = disk s
   \<and> fst (score_transaction L (snd (score_transaction L s rq)) rq) = fst (score_transaction L s rq)
   \<and> (\<forall>s2. tx_anomaly_model s2 = tx_anomaly_model s \<longrightarrow>
          fst (score_transaction L s2 rq) = fst (score_transaction L s rq))"
proof -
  have keep: "tx_anomaly_model (snd (score_transaction L s rq)) = tx_anomaly_model s"
    and disk: "disk (snd (score_transaction L s rq)) = disk s"
    using score_transaction_keeps_model [of L s rq] by simp_all
  from response_depends_on_model_only [OF keep]
  have again: "fst (score_transaction L (snd (score_transaction L s rq)) rq)
                = fst (score_transaction L s rq)" .
  have any: "\<forall>s2. tx_anomaly_model s2 = tx_anomaly_model s \<longrightarrow>
          fst (score_transaction L s2 rq) = fst (score_transaction L s rq)"
    using response_depends_on_model_only by blast
  from keep disk again any show ?thesis by (intro conjI)
qed

theorem scoring_is_repeatable_witness:
  "snd (score_transaction example_libs warm_state (Inr (PDict example_payload))) \<noteq> warm_state
   \<and> fst (score_transaction example_libs
            (snd (score_transaction example_libs warm_state (Inr (PDict example_payload))))
            (Inr (PDict example_payload)))
      = Response 200 [(''anomaly_score'', PFloat 0.4), (''fee_adequacy'', PFloat 1),
                      (''message'', PStr ''Transaction scored successfully'')]
   \<and> fst (score_transaction example_libs warm_state (Inr (PDict example_payload)))
      = Response 200 [(''anomaly_score'', PFloat 0.4), (''fee_adequacy'', PFloat 1),
                      (''message'', PStr ''Transaction scored successfully'')]"
proof -
  let ?rq = "Inr (PDict example_payload) :: request"
  have first: "fst (score_transaction example_libs warm_state ?rq)
      = Response 200 [(''anomaly_score'', PFloat 0.4), (''fee_adequacy'', PFloat 1),
                      (''message'', PStr ''Transaction scored successfully'')]"
    by (simp add: example_scored)
  have "snd (score_transaction example_libs warm_state ?rq) = logger (Info_scored 0.4 1) warm_state"
    by (simp add: example_scored)
  moreover have "logged (logger (Info_scored 0.4 1) warm_state) \<noteq> logged warm_state"
    by (simp add: logger_def)
  ultimately have changed: "snd (score_transaction example_libs warm_state ?rq) \<noteq> warm_state"
    by auto
  from scoring_is_repeatable [of example_libs warm_state ?rq] first
  have "fst (score_transaction example_libs (snd (score_transaction example_libs warm_state ?rq)) ?rq)
      = Response 200 [(''anomaly_score'', PFloat 0.4), (''fee_adequacy'', PFloat 1),
                      (''message'', PStr ''Transaction scored successfully'')]"
    by simp
  with changed first show ?thesis by (intro conjI)
qed

lemma other_scored:
  "score_transaction other_libs warm_state (Inr (PDict other_payload)) =
     (Response 200 [(''anomaly_score'', PFloat 0.8), (''fee_adequacy'', PFloat 1),
                    (''message'', PStr ''Transaction scored successfully'')],
      logger (Info_scored 0.8 1) warm_state)"
  by (simp add: score_transaction_def score_try_def attr_get_def example_libs_def other_libs_def
      warm_state_def other_payload_def feature_row_def dict_get_def anomaly_part_def model_attr_def
      subscript0_def py_min_def py_max_def py_lt_float_def py_gt_float_def fee_part_def
      py_float_def py_mul_float_def logger_def)

text \<open>
  Claim C10. Two scored payloads that give the same \<open>fee\<close> and the same \<open>fee_rate\<close>
  (read with the default \<open>0.0\<close>) get the same \<open>fee_adequacy\<close>, whatever their other
  fields, the model, the libraries and the state.
\<close>

theorem fee_adequacy_depends_only_on_fee_fields:
  assumes "score_transaction L1 s1 (Inr (PDict d1)) = (r1, t1)" and "status r1 = 200"
    and "score_transaction L2 s2 (Inr (PDict d2)) = (r2, t2)" and "status r2 = 200"
    and "dict_get d1 ''fee'' (PFloat 0.0) = dict_get d2 ''fee'' (PFloat 0.0)"
    and "dict_get d1 ''fee_rate'' (PFloat 0.0) = dict_get d2 ''fee_rate'' (PFloat 0.0)"
  shows "returned r1 ''fee_adequacy'' = returned r2 ''fee_adequacy''"
proof -
  from score_transaction_200 [OF assms(1,2)] obtain d dsc fr and fe :: real where
    d: "(Inr (PDict d1) :: request) = Inr (PDict d)" and
    fr: "num_of (dict_get d ''fee_rate'' (PFloat 0.0)) = Some fr" and
    fe: "num_of (dict_get d ''fee'' (PFloat 0.0)) = Some fe" and
    r1: "r1 = Response 200
                 [(''anomaly_score'', PFloat (clamp (0.5 - dsc) 0 1)),
                  (''fee_adequacy'',
                     PFloat (if fe < 0.1 then clamp (fr * 100) 0 1 * 0.5 else clamp (fr * 100) 0 1)),
                  (''message'', PStr ''Transaction scored successfully'')]"
    by blast
  from score_transaction_200 [OF assms(3,4)] obtain d' dsc' fr' and fe' :: real where
    d': "(Inr (PDict d2) :: request) = Inr (PDict d')" and
    fr': "num_of (dict_get d' ''fee_rate'' (PFloat 0.0)) = Some fr'" and
    fe': "num_of (dict_get d' ''fee'' (PFloat 0.0)) = Some fe'" and
    r2: "r2 = Response 200
                 [(''anomaly_score'', PFloat (clamp (0.5 - dsc') 0 1)),
                  (''fee_adequacy'',
                     PFloat (if fe' < 0.1 then clamp (fr' * 100) 0 1 * 0.5 else clamp (fr' * 100) 0 1)),
                  (''message'', PStr ''Transaction scored successfully'')]"
    by blast
  from d d' have "d = d1" "d' = d2" by simp_all
  with fr fe fr' fe' assms(5,6) have "fr = fr'" "fe = fe'" by simp_all
  with r1 r2 show ?thesis by (simp add: returned_def)
qed

theorem fee_adequacy_depends_only_on_fee_fields_witness:
  "status (fst (score_transaction example_libs warm_state (Inr (PDict example_payload)))) = 200
   \<and> status (fst (score_transaction other_libs warm_state (Inr (PDict other_payload)))) = 200
   \<and> dict_get example_payload ''fee'' (PFloat 0.0) = dict_get other_payload ''fee'' (PFloat 0.0)
   \<and> dict_get example_payload ''fee_rate'' (PFloat 0.0) = dict_get other_payload ''fee_rate'' (PFloat 0.0)
   \<and> returned (fst (score_transaction example_libs warm_state (Inr (PDict example_payload))))
        ''anomaly_score''
      \<noteq> returned (fst (score_transaction other_libs warm_state (Inr (PDict other_payload))))
        ''anomaly_score''
   \<and> returned (fst (score_transaction example_libs warm_state (Inr (PDict example_payload))))
        ''fee_adequacy''
      = returned (fst (score_transaction other_libs warm_state (Inr (PDict other_payload))))
        ''fee_adequacy''"
proof -
  let ?o1 = "score_transaction example_libs warm_state (Inr (PDict example_payload))"
  let ?o2 = "score_transaction other_libs warm_state (Inr (PDict other_payload))"
  have st1: "status (fst ?o1) = 200" by (simp add: example_scored)
  have st2: "status (fst ?o2) = 200" by (simp add: other_scored)
  have fee: "dict_get example_payload ''fee'' (PFloat 0.0) = dict_get other_payload ''fee'' (PFloat 0.0)"
    by (simp add: dict_get_def example_payload_def other_payload_def)
  have rate: "dict_get example_payload ''fee_rate'' (PFloat 0.0)
                = dict_get other_payload ''fee_rate'' (PFloat 0.0)"
    by (simp add: dict_get_def example_payload_def other_payload_def)
  have differ: "returned (fst ?o1) ''anomaly_score'' \<noteq> returned (fst ?o2) ''anomaly_score''"
    by (simp add: example_scored other_scored returned_def)
  from fee_adequacy_depends_only_on_fee_fields
         [OF surjective_pairing st1 surjective_pairing st2 fee rate]
  have same: "returned (fst ?o1) ''fee_adequacy'' = returned (fst ?o2) ''fee_adequacy''" .
  from st1 st2 fee rate differ same show ?thesis by (intro conjI)
qed

section \<open>The claims about model start-up\<close>

text \<open>The two paths of \<^verbatim>\<open>load_or_create_model\<close>, each written out.\<close>

lemma parent_dir_model_path: "parent_dir model_path = ''models''"
  by (simp add: parent_dir_def model_path_def)

lemma fit_bootstrap:
  "fit (IsolationForest 0.1 42 100 None) dummy_data = IsolationForest 0.1 42 100 (Some dummy_data)"
  by (simp add: fit_def)

lemma cold_start_unfold:
  assumes "\<not> os_path_exists (disk s) model_path"
  shows "load_or_create_model s =
     (let s3 = (logger (Info ''Creating new IsolationForest model'') s)
                 \<lparr>tx_anomaly_model := Some (IsolationForest 0.1 42 100 (Some dummy_data))\<rparr>
      in case os_makedirs (disk s) ''models'' of
           Inl e \<Rightarrow> (Some e, s3)
         | Inr d \<Rightarrow>
            (case joblib_dump (IsolationForest 0.1 42 100 (Some dummy_data)) d model_path of
               Inl e \<Rightarrow> (Some e, s3\<lparr>disk := d\<rparr>)
             | Inr d' \<Rightarrow> (None, logger (Info (''Model saved to '' @ model_path)) (s3\<lparr>disk := d'\<rparr>))))"
  using assms
  by (simp add: load_or_create_model_def Let_def fit_bootstrap logger_def split: sum.splits)

lemma warm_start_unfold:
  assumes "os_path_exists (disk s) model_path"
  shows "load_or_create_model s =
     (case joblib_load (disk s) model_path of
        Inl e \<Rightarrow> (Some e, logger (Info (''Loading model from '' @ model_path)) s)
      | Inr est \<Rightarrow> (None, (logger (Info (''Loading model from '' @ model_path)) s)
                            \<lparr>tx_anomaly_model := Some est\<rparr>))"
  using assms
  by (simp add: load_or_create_model_def Let_def logger_def split: sum.splits)

lemma warm_start_writes_nothing:
  "os_path_exists (disk s) model_path \<Longrightarrow> disk (snd (load_or_create_model s)) = disk s"
  by (simp add: warm_start_unfold logger_def split: sum.splits)

text \<open>
  Claim C6. When nothing exists at the configured path, start-up makes the global model an
  \<^verbatim>\<open>IsolationForest\<close> with contamination \<open>0.1\<close>, random seed \<open>42\<close> and \<open>100\<close>
  estimators, fitted on the three rows of \<open>dummy_data\<close>. If moreover the directory tree
  accepts writes and no regular file is called \<open>models\<close>, start-up ends without an
  exception, the directory \<open>models\<close> (the parent of the configured path) exists afterwards,
  and loading the configured path gives back that fitted model.
\<close>

theorem cold_start_builds_and_persists_model:
  assumes "\<not> os_path_exists (disk s) model_path"
  shows "tx_anomaly_model (snd (load_or_create_model s))
           = Some (IsolationForest 0.1 42 100 (Some dummy_data))
       \<and> length dummy_data = 3
       \<and> (\<not> read_only (disk s) \<and> map_of (files (disk s)) ''models'' = None \<longrightarrow>
            fst (load_or_create_model s) = None
          \<and> parent_dir model_path = ''models''
          \<and> ''models'' \<in> set (dirs (disk (snd (load_or_create_model s))))
          \<and> joblib_load (disk (snd (load_or_create_model s))) model_path
               = Inr (IsolationForest 0.1 42 100 (Some dummy_data)))"
proof -
  from assms have nd: "model_path \<notin> set (dirs (disk s))"
    by (simp add: os_path_exists_def)
  have "''models'' \<noteq> model_path" by (simp add: model_path_def)
  with nd have nd': "model_path \<notin> set (''models'' # dirs (disk s))" by simp
  have m: "tx_anomaly_model (snd (load_or_create_model s))
           = Some (IsolationForest 0.1 42 100 (Some dummy_data))"
    by (simp add: cold_start_unfold [OF assms] Let_def logger_def split: sum.splits)
  have l: "length dummy_data = 3" by (simp add: dummy_data_def)
  have p: "fst (load_or_create_model s) = None
          \<and> parent_dir model_path = ''models''
          \<and> ''models'' \<in> set (dirs (disk (snd (load_or_create_model s))))
          \<and> joblib_load (disk (snd (load_or_create_model s))) model_path
               = Inr (IsolationForest 0.1 42 100 (Some dummy_data))"
    if "\<not> read_only (disk s)" and "map_of (files (disk s)) ''models'' = None"
    using that nd nd'
    by (simp add: cold_start_unfold [OF assms] Let_def logger_def os_makedirs_def joblib_dump_def
        joblib_load_def parent_dir_model_path)
  from m l p show ?thesis by blast
qed

theorem cold_start_builds_and_persists_model_witness:
  "\<not> os_path_exists (disk fresh_state) model_path
   \<and> \<not> read_only (disk fresh_state) \<and> map_of (files (disk fresh_state)) ''models'' = None
   \<and> fst (load_or_create_model fresh_state) = None
   \<and> tx_anomaly_model (snd (load_or_create_model fresh_state))
        = Some (IsolationForest 0.1 42 100 (Some dummy_data))
   \<and> ''models'' \<in> set (dirs (disk (snd (load_or_create_model fresh_state))))
   \<and> joblib_load (disk (snd (load_or_create_model fresh_state))) model_path
        = Inr (IsolationForest 0.1 42 100 (Some dummy_data))"
proof -
  have a: "\<not> os_path_exists (disk fresh_state) model_path"
    by (simp add: os_path_exists_def fresh_state_def)
  have b: "\<not> read_only (disk fresh_state)" and c: "map_of (files (disk fresh_state)) ''models'' = None"
    by (simp_all add: fresh_state_def)
  from cold_start_builds_and_persists_model [OF a] a b c show ?thesis by blast
qed

text \<open>The state of the example in which the dump is refused.\<close>

lemma read_only_state_cold: "\<not> os_path_exists (disk read_only_state) model_path"
  by (simp add: os_path_exists_def read_only_state_def model_path_def)

lemma read_only_state_run:
  "load_or_create_model read_only_state =
     (Some (OSError ''Permission denied''),
      read_only_state\<lparr>tx_anomaly_model := Some (IsolationForest 0.1 42 100 (Some dummy_data)),
                       logged := [Info ''Creating new IsolationForest model'']\<rparr>)"
  by (simp add: cold_start_unfold [OF read_only_state_cold] Let_def logger_def os_makedirs_def
      joblib_dump_def parent_dir_model_path)
     (simp add: read_only_state_def model_path_def)

text \<open>
  Claim C7, as stated, fails. With no artifact on a read-only tree the dump raises, nothing
  catches it: \<^verbatim>\<open>load_or_create_model\<close> is left by the exception, the log holds only the
  "Creating" record, and the process ends before it serves.
\<close>

theorem persist_failure_crashes_startup:
  "\<not> os_path_exists (disk read_only_state) model_path
   \<and> load_or_create_model read_only_state =
       (Some (OSError ''Permission denied''),
        read_only_state\<lparr>tx_anomaly_model := Some (IsolationForest 0.1 42 100 (Some dummy_data)),
                         logged := [Info ''Creating new IsolationForest model'']\<rparr>)
   \<and> main (Inr 5000) read_only_state =
       Crashed (OSError ''Permission denied'')
        (read_only_state\<lparr>tx_anomaly_model := Some (IsolationForest 0.1 42 100 (Some dummy_data)),
                          logged := [Info ''Creating new IsolationForest model'']\<rparr>)"
  using read_only_state_cold read_only_state_run by (simp add: main_def)

text \<open>
  Claim C7, amended. When no artifact exists at the configured path and persisting the newly
  created model fails (creating the directory or dumping raises), the failure is neither
  caught nor logged: it leaves \<^verbatim>\<open>load_or_create_model\<close> as an exception and ends
  start-up. The global model had been set to the fitted in-memory model before the failure.
\<close>

theorem persist_failure_propagates:
  assumes "\<not> os_path_exists (disk s) model_path"
    and "os_makedirs (disk s) ''models'' = Inl e
         \<or> (\<exists>d. os_makedirs (disk s) ''models'' = Inr d
                \<and> joblib_dump (IsolationForest 0.1 42 100 (Some dummy_data)) d model_path = Inl e)"
  shows "fst (load_or_create_model s) = Some e
       \<and> tx_anomaly_model (snd (load_or_create_model s))
           = Some (IsolationForest 0.1 42 100 (Some dummy_data))
       \<and> logged (snd (load_or_create_model s))
           = logged s @ [Info ''Creating new IsolationForest model'']
       \<and> main port_env s = Crashed e (snd (load_or_create_model s))"
  using assms(2)
  by (auto simp: cold_start_unfold [OF assms(1)] Let_def logger_def main_def)

theorem persist_failure_propagates_witness:
  "\<not> os_path_exists (disk read_only_state) model_path
   \<and> os_makedirs (disk read_only_state) ''models'' = Inr (disk read_only_state)
   \<and> joblib_dump (IsolationForest 0.1 42 100 (Some dummy_data)) (disk read_only_state) model_path
        = Inl (OSError ''Permission denied'')
   \<and> fst (load_or_create_model read_only_state) = Some (OSError ''Permission denied'')
   \<and> tx_anomaly_model (snd (load_or_create_model read_only_state))
        = Some (IsolationForest 0.1 42 100 (Some dummy_data))
   \<and> logged (snd (load_or_create_model read_only_state))
        = logged read_only_state @ [Info ''Creating new IsolationForest model'']"
proof -
  have mk: "os_makedirs (disk read_only_state) ''models'' = Inr (disk read_only_state)"
    by (simp add: os_makedirs_def read_only_state_def)
  have dump: "joblib_dump (IsolationForest 0.1 42 100 (Some dummy_data)) (disk read_only_state)
                model_path = Inl (OSError ''Permission denied'')"
    by (simp add: joblib_dump_def parent_dir_model_path) (simp add: read_only_state_def model_path_def)
  from mk dump have
    "os_makedirs (disk read_only_state) ''models'' = Inl (OSError ''Permission denied'')
     \<or> (\<exists>d. os_makedirs (disk read_only_state) ''models'' = Inr d
            \<and> joblib_dump (IsolationForest 0.1 42 100 (Some dummy_data)) d model_path
                 = Inl (OSError ''Permission denied''))"
    by blast
  from persist_failure_propagates [OF read_only_state_cold this, of "Inr 5000"]
       read_only_state_cold mk dump
  show ?thesis by blast
qed

text \<open>
  Claim C8. When something exists at the configured path and loading it raises (a corrupt or
  unreadable artifact), the exception leaves \<^verbatim>\<open>load_or_create_model\<close> and ends
  start-up; only the "Loading" record was logged, the global model is what it was and the disk
  is untouched, so no fresh model was created in its place.
\<close>

theorem load_failure_is_reported:
  assumes "os_path_exists (disk s) model_path" and "joblib_load (disk s) model_path = Inl e"
  shows "load_or_create_model s = (Some e, logger (Info (''Loading model from '' @ model_path)) s)
       \<and> tx_anomaly_model (snd (load_or_create_model s)) = tx_anomaly_model s
       \<and> disk (snd (load_or_create_model s)) = disk s
       \<and> main port_env s = Crashed e (logger (Info (''Loading model from '' @ model_path)) s)"
  using assms by (simp add: warm_start_unfold main_def logger_def)

theorem load_failure_is_reported_witness:
  "os_path_exists (disk corrupt_state) model_path
   \<and> joblib_load (disk corrupt_state) model_path = Inl (UnpicklingError ''invalid load key'')
   \<and> fst (load_or_create_model corrupt_state) = Some (UnpicklingError ''invalid load key'')
   \<and> tx_anomaly_model (snd (load_or_create_model corrupt_state)) = None
   \<and> disk (snd (load_or_create_model corrupt_state)) = disk corrupt_state"
proof -
  have a: "os_path_exists (disk corrupt_state) model_path"
    by (simp add: os_path_exists_def corrupt_state_def)
  have b: "joblib_load (disk corrupt_state) model_path = Inl (UnpicklingError ''invalid load key'')"
    by (simp add: joblib_load_def corrupt_state_def)
  have c: "tx_anomaly_model corrupt_state = None" by (simp add: corrupt_state_def)
  from load_failure_is_reported [OF a b, of "Inr 5000"]
  have r: "load_or_create_model corrupt_state
             = (Some (UnpicklingError ''invalid load key''),
                logger (Info (''Loading model from '' @ model_path)) corrupt_state)"
    and m: "tx_anomaly_model (snd (load_or_create_model corrupt_state)) = tx_anomaly_model corrupt_state"
    and d: "disk (snd (load_or_create_model corrupt_state)) = disk corrupt_state"
    by blast+
  from r have f: "fst (load_or_create_model corrupt_state) = Some (UnpicklingError ''invalid load key'')"
    by simp
  from m c have m': "tx_anomaly_model (snd (load_or_create_model corrupt_state)) = None" by simp
  from a b f m' d show ?thesis by (intro conjI)
qed

end
